theory Spec2Isabelle
  imports Main "HOL-Library.Sublist"
begin

text \<open>
  A shallow embedding of the ingestion pipeline of the Novi content assistant: the
  video agent (agents/youtube-agent/index.ts), the feed agent (its RSS sibling), the
  orchestrator's monitoring cycle, the storage manager's fan-out and the relational
  schema (database/schema.ts).  Handlers are functions from an environment, a request
  and the store to a response and the new store; a thrown value is a value of type
  \<open>exn\<close>, and every \<open>try\<close>/\<open>catch\<close> of the source is a case distinction on it.
  Everything that lies outside the repository (the clock, the random source, the feed
  parser, the language model, \<open>JSON.parse\<close>, the tool bridge, the document providers)
  is a parameter.  SQL equality on text is modelled as equality of strings.
\<close>

section \<open>Strings and numbers as the code uses them\<close>


definition digit_char :: "nat \<Rightarrow> char" where
  "digit_char d = char_of (48 + d)"

text \<open>\<open>n.toString()\<close> and template interpolation of a non-negative integer.\<close>

fun decimal :: "nat \<Rightarrow> string" where
  "decimal n = (if n < 10 then [digit_char n] else decimal (n div 10) @ [digit_char (n mod 10)])"


text \<open>\<open>v || d\<close> for an optional string \<open>v\<close>: an absent or empty \<open>v\<close> gives \<open>d\<close>.\<close>

definition or_else :: "string option \<Rightarrow> string \<Rightarrow> string" where
  "or_else v d = (case v of None \<Rightarrow> d | Some s \<Rightarrow> if s = [] then d else s)"

section \<open>The video agent's duration parser\<close>








section \<open>The feed agent's HTML stripping\<close>

text \<open>
  \<open>.replace(/<[^>]*>/g, '')\<close>: scanning from the left, a \<open><\<close> that has a \<open>>\<close> somewhere
  after it is removed together with everything up to and including the first such
  \<open>>\<close>; a \<open><\<close> with no \<open>>\<close> after it stays.
\<close>

function removeTags :: "string \<Rightarrow> string" where
  "removeTags [] = []"
| "removeTags (c # cs) =
     (if c = CHR ''<'' \<and> CHR ''>'' \<in> set cs
      then removeTags (tl (dropWhile (\<lambda>x. x \<noteq> CHR ''>'') cs))
      else c # removeTags cs)"
  by pat_completeness auto
termination
proof (relation "measure length")
  fix c :: char and cs :: string
  have "length (tl (dropWhile (\<lambda>x. x \<noteq> CHR ''>'') cs)) \<le> length cs"
    using length_dropWhile_le [of "\<lambda>x. x \<noteq> CHR ''>''" cs] by simp
  then show "(tl (dropWhile (\<lambda>x. x \<noteq> CHR ''>'') cs), c # cs) \<in> measure length"
    by simp
qed simp_all

text \<open>\<open>.replace(/pat/g, rep)\<close> for a literal pattern: every occurrence, left to right.\<close>

function replaceAll :: "string \<Rightarrow> string \<Rightarrow> string \<Rightarrow> string" where
  "replaceAll pat rep [] = []"
| "replaceAll pat rep (c # cs) =
     (if pat \<noteq> [] \<and> prefix pat (c # cs)
      then rep @ replaceAll pat rep (drop (length pat) (c # cs))
      else c # replaceAll pat rep cs)"
  by pat_completeness auto
termination
  by (relation "measure (\<lambda>(pat, rep, s). length s)") (auto simp: neq_Nil_conv)

text \<open>\<open>.trim()\<close>: the white space characters among the code units below 256.\<close>

definition isSpace :: "char \<Rightarrow> bool" where
  "isSpace c = ((of_char c :: nat) \<in> {9, 10, 11, 12, 13, 32, 160})"

definition trim :: "string \<Rightarrow> string" where
  "trim s = rev (dropWhile isSpace (rev (dropWhile isSpace s)))"

definition stripHtml :: "string \<Rightarrow> string" where
  "stripHtml html =
     trim (replaceAll ''&quot;'' [CHR 0x22]
       (replaceAll ''&gt;'' ''>''
         (replaceAll ''&lt;'' ''<''
           (replaceAll ''&amp;'' ''&''
             (replaceAll ''&nbsp;'' '' ''
               (removeTags html))))))"

section \<open>Exceptions, responses and JavaScript truthiness\<close>

text \<open>
  A thrown value is either an \<open>Error\<close> carrying a message or some other value; every
  handler reports \<open>error instanceof Error ? error.message : fallback\<close>.  A handler's
  \<open>resp.json\<close> payload is \<open>{success: true, data}\<close> or \<open>{success: false, error}\<close>
  (the \<open>timestamp\<close> field is a clock reading and is left out).
\<close>

datatype exn = Error string | NonError

definition error_message :: "exn \<Rightarrow> string \<Rightarrow> string" where
  "error_message e fallback = (case e of Error m \<Rightarrow> m | NonError \<Rightarrow> fallback)"

datatype 'a api_response = Success 'a | Failure string

text \<open>An optional string is truthy when it is present and non-empty.\<close>

definition truthy :: "string option \<Rightarrow> bool" where
  "truthy v = (case v of None \<Rightarrow> False | Some s \<Rightarrow> s \<noteq> [])"

text \<open>\<open>a || b\<close> with \<open>b\<close> still optional.\<close>

definition or_opt :: "string option \<Rightarrow> string option \<Rightarrow> string option" where
  "or_opt a b = (if truthy a then a else b)"

definition join :: "string \<Rightarrow> string list \<Rightarrow> string" where
  "join sep xs = (case xs of [] \<Rightarrow> [] | y # ys \<Rightarrow> foldl (\<lambda>acc x. acc @ sep @ x) y ys)"

section \<open>The relational schema (database/schema.ts)\<close>

text \<open>
  A table declaration lists its columns with their modifiers and its secondary indexes.
  In the schema every secondary index is declared with \<open>index(...)\<close>, which is a plain
  (non-unique) index; \<open>idx_unique\<close> would be set by \<open>uniqueIndex(...)\<close>.
\<close>

record column_def =
  col_name :: string
  col_primaryKey :: bool
  col_notNull :: bool
  col_unique :: bool
  col_hasDefault :: bool

record index_def =
  idx_name :: string
  idx_columns :: "string list"
  idx_unique :: bool

record table_def =
  tbl_name :: string
  tbl_columns :: "column_def list"
  tbl_indexes :: "index_def list"

definition column :: "string \<Rightarrow> column_def" where
  "column n = \<lparr>col_name = n, col_primaryKey = False, col_notNull = False, col_unique = False,
     col_hasDefault = False\<rparr>"

definition primaryKey :: "column_def \<Rightarrow> column_def" where
  "primaryKey c = c\<lparr>col_primaryKey := True, col_notNull := True\<rparr>"

definition notNull :: "column_def \<Rightarrow> column_def" where
  "notNull c = c\<lparr>col_notNull := True\<rparr>"

definition withDefault :: "column_def \<Rightarrow> column_def" where
  "withDefault c = c\<lparr>col_hasDefault := True\<rparr>"

definition index :: "string \<Rightarrow> string list \<Rightarrow> index_def" where
  "index n cols = \<lparr>idx_name = n, idx_columns = cols, idx_unique = False\<rparr>"

definition contentSources_table :: table_def where
  "contentSources_table =
     \<lparr>tbl_name = ''content_sources'',
      tbl_columns =
        [primaryKey (column ''id''),
         notNull (column ''user_id''),
         notNull (column ''type''),
         notNull (column ''name''),
         notNull (column ''url''),
         column ''metadata'',
         withDefault (column ''is_active''),
         withDefault (column ''created_at''),
         withDefault (column ''updated_at'')],
      tbl_indexes =
        [index ''user_idx'' [''user_id''],
         index ''type_idx'' [''type'']]\<rparr>"

definition contentItems_table :: table_def where
  "contentItems_table =
     \<lparr>tbl_name = ''content_items'',
      tbl_columns =
        [primaryKey (column ''id''),
         notNull (column ''source_id''),
         notNull (column ''type''),
         notNull (column ''title''),
         column ''url'',
         column ''content'',
         column ''metadata'',
         column ''published_at'',
         withDefault (column ''created_at'')],
      tbl_indexes =
        [index ''source_idx'' [''source_id''],
         index ''published_idx'' [''published_at''],
         index ''type_idx'' [''type'']]\<rparr>"

definition summaries_table :: table_def where
  "summaries_table =
     \<lparr>tbl_name = ''summaries'',
      tbl_columns =
        [primaryKey (column ''id''),
         notNull (column ''content_item_id''),
         notNull (column ''user_id''),
         notNull (column ''summary''),
         column ''key_points'',
         column ''sentiment'',
         column ''topics'',
         column ''ai_model'',
         column ''confidence'',
         withDefault (column ''created_at'')],
      tbl_indexes =
        [index ''content_idx'' [''content_item_id''],
         index ''user_idx'' [''user_id''],
         index ''created_idx'' [''created_at'']]\<rparr>"

text \<open>
  The keys on which the store rejects a second row: the primary key, every column marked
  \<open>unique\<close>, and every unique index.
\<close>

definition unique_keys :: "table_def \<Rightarrow> string list list" where
  "unique_keys t =
     map (\<lambda>c. [col_name c]) (filter (\<lambda>c. col_primaryKey c \<or> col_unique c) (tbl_columns t))
     @ map idx_columns (filter idx_unique (tbl_indexes t))"

text \<open>
  Column values.  A row handed to \<open>insert\<close> is read through the column names of its
  table; \<open>SqlNull\<close> stands for both SQL NULL and a JavaScript \<open>undefined\<close> value.
\<close>

datatype json =
    JsonString string
  | JsonNumber int
  | JsonBool bool
  | JsonArray "json list"
  | JsonObject "(string \<times> json) list"

datatype sqlval = SqlNull | SqlText string | SqlInt int | SqlBool bool | SqlTime nat | SqlJson json

type_synonym sqlrow = "string \<Rightarrow> sqlval"

definition key_conflict :: "sqlrow \<Rightarrow> sqlrow \<Rightarrow> string list \<Rightarrow> bool" where
  "key_conflict new old key = list_all (\<lambda>c. new c \<noteq> SqlNull \<and> old c = new c) key"

text \<open>
  What the store (MySQL in its default strict mode) answers to an \<open>insert\<close>: a NOT NULL
  column without default that receives no value is refused, and so is a row that agrees
  with a stored row on one of the table's unique keys.  The messages stand for the
  driver's.
\<close>

definition insert_violation :: "table_def \<Rightarrow> sqlrow \<Rightarrow> sqlrow list \<Rightarrow> exn option" where
  "insert_violation t new olds =
     (if list_ex (\<lambda>c. col_notNull c \<and> \<not> col_hasDefault c \<and> new (col_name c) = SqlNull)
           (tbl_columns t)
      then Some (Error ''Column cannot be null'')
      else if list_ex (\<lambda>key. list_ex (\<lambda>old. key_conflict new old key) olds) (unique_keys t)
      then Some (Error ''Duplicate entry'')
      else None)"

section \<open>Rows and the store\<close>

record source_metadata =
  smd_channelId :: "string option"
  smd_feedUrl :: "string option"
  smd_lastChecked :: "string option"
  smd_isActive :: "bool option"

record content_source =
  cs_id :: string
  cs_userId :: string
  cs_type :: string
  cs_name :: string
  cs_url :: string
  cs_metadata :: "source_metadata option"
  cs_isActive :: "bool option"
  cs_createdAt :: "nat option"
  cs_updatedAt :: "nat option"

record item_metadata =
  md_author :: "string option"
  md_publishedAt :: "string option"
  md_duration :: "nat option"
  md_thumbnailUrl :: "string option"
  md_tags :: "string list option"

record content_item =
  ci_id :: string
  ci_sourceId :: string
  ci_type :: string
  ci_title :: string
  ci_url :: "string option"
  ci_content :: "string option"
  ci_metadata :: "item_metadata option"
  ci_publishedAt :: "nat option"
  ci_createdAt :: "nat option"

record summary_row =
  sm_id :: string
  sm_contentItemId :: string
  sm_userId :: string
  sm_summary :: "string option"
  sm_keyPoints :: "string list option"
  sm_sentiment :: "string option"
  sm_topics :: "string list option"
  sm_aiModel :: "string option"
  sm_confidence :: "int option"
  sm_createdAt :: "nat option"

definition sql_text :: "string option \<Rightarrow> sqlval" where
  "sql_text v = (case v of None \<Rightarrow> SqlNull | Some s \<Rightarrow> SqlText s)"

definition sql_time :: "nat option \<Rightarrow> sqlval" where
  "sql_time v = (case v of None \<Rightarrow> SqlNull | Some t \<Rightarrow> SqlTime t)"

definition sql_strings :: "string list option \<Rightarrow> sqlval" where
  "sql_strings v = (case v of None \<Rightarrow> SqlNull | Some xs \<Rightarrow> SqlJson (JsonArray (map JsonString xs)))"

definition json_fields :: "(string \<times> json option) list \<Rightarrow> json" where
  "json_fields fs =
     JsonObject (List.map_filter (\<lambda>(k, v). case v of None \<Rightarrow> None | Some j \<Rightarrow> Some (k, j)) fs)"

definition item_metadata_json :: "item_metadata \<Rightarrow> json" where
  "item_metadata_json m =
     json_fields
       [(''author'', map_option JsonString (md_author m)),
        (''publishedAt'', map_option JsonString (md_publishedAt m)),
        (''duration'', map_option (\<lambda>n. JsonNumber (int n)) (md_duration m)),
        (''thumbnailUrl'', map_option JsonString (md_thumbnailUrl m)),
        (''tags'', map_option (\<lambda>xs. JsonArray (map JsonString xs)) (md_tags m))]"

definition content_item_row :: "content_item \<Rightarrow> sqlrow" where
  "content_item_row r c =
     (if c = ''id'' then SqlText (ci_id r)
      else if c = ''source_id'' then SqlText (ci_sourceId r)
      else if c = ''type'' then SqlText (ci_type r)
      else if c = ''title'' then SqlText (ci_title r)
      else if c = ''url'' then sql_text (ci_url r)
      else if c = ''content'' then sql_text (ci_content r)
      else if c = ''metadata'' then
        (case ci_metadata r of None \<Rightarrow> SqlNull | Some m \<Rightarrow> SqlJson (item_metadata_json m))
      else if c = ''published_at'' then sql_time (ci_publishedAt r)
      else if c = ''created_at'' then sql_time (ci_createdAt r)
      else SqlNull)"

definition summary_row_row :: "summary_row \<Rightarrow> sqlrow" where
  "summary_row_row r c =
     (if c = ''id'' then SqlText (sm_id r)
      else if c = ''content_item_id'' then SqlText (sm_contentItemId r)
      else if c = ''user_id'' then SqlText (sm_userId r)
      else if c = ''summary'' then sql_text (sm_summary r)
      else if c = ''key_points'' then sql_strings (sm_keyPoints r)
      else if c = ''sentiment'' then sql_text (sm_sentiment r)
      else if c = ''topics'' then sql_strings (sm_topics r)
      else if c = ''ai_model'' then sql_text (sm_aiModel r)
      else if c = ''confidence'' then
        (case sm_confidence r of None \<Rightarrow> SqlNull | Some n \<Rightarrow> SqlInt n)
      else if c = ''created_at'' then sql_time (sm_createdAt r)
      else SqlNull)"

text \<open>
  The store: the three tables of the primary database that the pipeline touches, and the
  two tables of the optional Supabase mirror the agents write to.
\<close>

record db =
  contentSources :: "content_source list"
  contentItems :: "content_item list"
  summaries :: "summary_row list"
  sb_content_items :: "content_item list"
  sb_summaries :: "summary_row list"

definition insert_contentItem :: "content_item \<Rightarrow> db \<Rightarrow> exn + db" where
  "insert_contentItem r d =
     (case insert_violation contentItems_table (content_item_row r)
             (map content_item_row (contentItems d)) of
        Some e \<Rightarrow> Inl e
      | None \<Rightarrow> Inr (d\<lparr>contentItems := contentItems d @ [r]\<rparr>))"

definition insert_summary :: "summary_row \<Rightarrow> db \<Rightarrow> exn + db" where
  "insert_summary r d =
     (case insert_violation summaries_table (summary_row_row r)
             (map summary_row_row (summaries d)) of
        Some e \<Rightarrow> Inl e
      | None \<Rightarrow> Inr (d\<lparr>summaries := summaries d @ [r]\<rparr>))"

text \<open>
  The mirror's \<open>upsert(..., {onConflict: 'id'})\<close>: the row replaces the mirror's row of
  the same id, or is added.  The callers discard its answer.
\<close>

definition upsert_by :: "('r \<Rightarrow> string) \<Rightarrow> 'r \<Rightarrow> 'r list \<Rightarrow> 'r list" where
  "upsert_by key r rows =
     (if list_ex (\<lambda>x. key x = key r) rows
      then map (\<lambda>x. if key x = key r then r else x) rows
      else rows @ [r])"

definition upsertContentItemSB :: "content_item \<Rightarrow> db \<Rightarrow> db" where
  "upsertContentItemSB r d = d\<lparr>sb_content_items := upsert_by ci_id r (sb_content_items d)\<rparr>"

definition upsertSummarySB :: "summary_row \<Rightarrow> db \<Rightarrow> db" where
  "upsertSummarySB r d = d\<lparr>sb_summaries := upsert_by sm_id r (sb_summaries d)\<rparr>"

section \<open>The environment of one handler invocation\<close>

text \<open>
  Everything a handler obtains from outside the repository is a field of the
  environment: the random identifiers and clock readings (indexed by the loop iteration
  that asks for them; all clock reads of one iteration are one reading), the date
  library, the configuration switches, the Composio tool bridge, the feed parser, the
  language model, and \<open>JSON.parse\<close> followed by the reads of the five expected
  properties (\<open>Inl\<close> when \<open>JSON.parse\<close> throws or the parsed value is \<open>null\<close>; a
  property that is absent reads as \<open>None\<close>).
\<close>

datatype tool_result = ResultFalsy | ResultString string | ResultObject "string option"

record tool =
  tool_name :: "string option"
  tool_execute :: "(string \<Rightarrow> exn + tool_result) option"

record feed_item =
  fi_title :: "string option"
  fi_link :: "string option"
  fi_creator :: "string option"
  fi_dc_creator :: "string option"
  fi_pubDate :: "string option"
  fi_isoDate :: "string option"
  fi_categories :: "string list option"
  fi_content_encoded :: "string option"
  fi_content :: "string option"
  fi_description :: "string option"
  fi_summary :: "string option"
  fi_contentSnippet :: "string option"

record feed =
  feed_title :: "string option"
  feed_items :: "feed_item list"

record summary_data =
  sd_summary :: "string option"
  sd_keyPoints :: "string list option"
  sd_topics :: "string list option"
  sd_sentiment :: "string option"
  sd_confidence :: "int option"

record env =
  generateId :: "nat \<Rightarrow> string"
  dateNow :: "nat \<Rightarrow> nat"
  toISOString :: "nat \<Rightarrow> string"
  newDate :: "string \<Rightarrow> nat"
  supabaseEnabled :: bool
  composioEnabled :: bool
  composioTools :: "string \<Rightarrow> string \<Rightarrow> tool list"
  parseURL :: "string \<Rightarrow> exn + feed"
  llm_invoke :: "(string \<times> string) list \<Rightarrow> exn + string"
  parse_summary :: "string \<Rightarrow> exn + summary_data"

record agent_request =
  req_sourceId :: "string option"
  req_contentItemId :: "string option"
  req_userId :: "string option"

text \<open>integrations/composio: \<open>TOOLKITS_BY_AGENT\<close> and \<open>getToolsForAgent\<close>.\<close>

definition TOOLKITS_BY_AGENT :: "string \<Rightarrow> string list" where
  "TOOLKITS_BY_AGENT agentId =
     (if agentId = ''youtube-agent'' then [''youtube'', ''youtube_data'', ''youtube_transcript'']
      else if agentId = ''rss-agent'' then [''web'', ''scraper'', ''firecrawl'', ''serpapi'']
      else if agentId = ''newsletter-agent'' then [''gmail'']
      else if agentId = ''interaction-agent'' then [''notion'', ''google_docs'', ''google_drive'']
      else [])"

definition getToolsForAgent :: "env \<Rightarrow> string \<Rightarrow> string \<Rightarrow> tool list" where
  "getToolsForAgent e userId agentId =
     (if \<not> composioEnabled e then []
      else if TOOLKITS_BY_AGENT agentId = [] then []
      else composioTools e userId agentId)"

section \<open>The feed agent (RSS): content extraction and monitoring\<close>

definition extractContent :: "feed_item \<Rightarrow> string" where
  "extractContent item =
     (case List.find truthy
             [fi_content_encoded item, fi_content item, fi_description item, fi_summary item,
              fi_contentSnippet item] of
        Some (Some v) \<Rightarrow> stripHtml v
      | _ \<Rightarrow> [])"

definition rss_new_item :: "env \<Rightarrow> string \<Rightarrow> nat \<Rightarrow> feed_item \<Rightarrow> content_item" where
  "rss_new_item e sourceId k item =
     \<lparr>ci_id = ''article_'' @ generateId e k @ ''_'' @ decimal (dateNow e k),
      ci_sourceId = sourceId,
      ci_type = ''article'',
      ci_title = or_else (fi_title item) ''Untitled'',
      ci_url = Some (or_else (fi_link item) []),
      ci_content = Some (extractContent item),
      ci_metadata = Some
        \<lparr>md_author = Some (or_else (or_opt (fi_creator item) (fi_dc_creator item)) ''Unknown''),
         md_publishedAt = Some (or_else (or_opt (fi_pubDate item) (fi_isoDate item))
                                  (toISOString e (dateNow e k))),
         md_duration = None,
         md_thumbnailUrl = None,
         md_tags = Some (case fi_categories item of None \<Rightarrow> [] | Some cs \<Rightarrow> cs)\<rparr>,
      ci_publishedAt = Some (if truthy (fi_pubDate item)
                             then newDate e (or_else (fi_pubDate item) [])
                             else dateNow e k),
      ci_createdAt = Some (dateNow e k)\<rparr>"

text \<open>
  The \<open>for (const item of feed.items)\<close> loop of the feed agent's \<open>handleMonitoring\<close>.
  \<open>k\<close> counts the iterations, \<open>newItems\<close> is the running counter.  An insert that
  the store refuses throws out of the loop; the rows written before stay written.
\<close>

fun rss_monitor_loop ::
  "env \<Rightarrow> string \<Rightarrow> feed_item list \<Rightarrow> nat \<Rightarrow> nat \<Rightarrow> db \<Rightarrow> (exn + nat) \<times> db" where
  "rss_monitor_loop e sourceId [] k newItems d = (Inr newItems, d)"
| "rss_monitor_loop e sourceId (item # items) k newItems d =
     (let existing =
            List.find (\<lambda>r. ci_sourceId r = sourceId \<and> ci_url r = Some (or_else (fi_link item) []))
              (contentItems d)
      in if existing = None \<and> truthy (fi_link item)
         then (case insert_contentItem (rss_new_item e sourceId k item) d of
                 Inl err \<Rightarrow> (Inl err, d)
               | Inr d1 \<Rightarrow>
                   rss_monitor_loop e sourceId items (Suc k) (Suc newItems)
                     (if supabaseEnabled e
                      then upsertContentItemSB (rss_new_item e sourceId k item) d1
                      else d1))
         else rss_monitor_loop e sourceId items (Suc k) newItems d)"

definition touch_source :: "env \<Rightarrow> string \<Rightarrow> content_source \<Rightarrow> nat \<Rightarrow> db \<Rightarrow> db" where
  "touch_source e sourceId snapshot k d =
     d\<lparr>contentSources :=
         map (\<lambda>s. if cs_id s = sourceId
                  then s\<lparr>cs_metadata := Some
                           ((case cs_metadata snapshot of
                               None \<Rightarrow> \<lparr>smd_channelId = None, smd_feedUrl = None,
                                         smd_lastChecked = None, smd_isActive = None\<rparr>
                             | Some m \<Rightarrow> m)
                            \<lparr>smd_lastChecked := Some (toISOString e (dateNow e k))\<rparr>),
                         cs_updatedAt := Some (dateNow e k)\<rparr>
                  else s)
           (contentSources d)\<rparr>"

text \<open>\<open>feedSource.metadata?.feedUrl || feedSource.url\<close>\<close>

definition rss_feedUrl :: "content_source \<Rightarrow> string" where
  "rss_feedUrl feedSource =
     or_else (case cs_metadata feedSource of None \<Rightarrow> None | Some m \<Rightarrow> smd_feedUrl m)
       (cs_url feedSource)"

record rss_monitor_data =
  rmd_sourceId :: string
  rmd_articlesChecked :: nat
  rmd_newItems :: nat
  rmd_composioEnabled :: bool
  rmd_toolsAvailable :: nat
  rmd_feedTitle :: "string option"

definition rss_handleMonitoring ::
  "env \<Rightarrow> agent_request \<Rightarrow> db \<Rightarrow> rss_monitor_data api_response \<times> db" where
  "rss_handleMonitoring e request d =
     (if \<not> truthy (req_sourceId request)
      then (Failure ''sourceId is required for monitoring'', d)
      else
        let sourceId = or_else (req_sourceId request) [] in
        (case List.find (\<lambda>s. cs_id s = sourceId \<and> cs_type s = ''rss'') (contentSources d) of
           None \<Rightarrow> (Failure ''RSS source not found'', d)
         | Some feedSource \<Rightarrow>
             let feedUrl = rss_feedUrl feedSource;
                 tools = (if composioEnabled e
                          then getToolsForAgent e (cs_userId feedSource) ''rss-agent''
                          else [])
             in (case parseURL e feedUrl of
                   Inl err \<Rightarrow> (Failure (error_message err ''Monitoring failed''), d)
                 | Inr fd \<Rightarrow>
                     (case rss_monitor_loop e sourceId (feed_items fd) 0 0 d of
                        (Inl err, d1) \<Rightarrow> (Failure (error_message err ''Monitoring failed''), d1)
                      | (Inr newItems, d1) \<Rightarrow>
                          (Success
                             \<lparr>rmd_sourceId = sourceId,
                              rmd_articlesChecked = length (feed_items fd),
                              rmd_newItems = newItems,
                              rmd_composioEnabled = composioEnabled e,
                              rmd_toolsAvailable = length tools,
                              rmd_feedTitle = feed_title fd\<rparr>,
                           touch_source e sourceId feedSource (length (feed_items fd)) d1)))))"

section \<open>The video agent (YouTube): monitoring\<close>

definition isIdChar :: "char \<Rightarrow> bool" where
  "isIdChar c =
     (let n = (of_char c :: nat)
      in (97 \<le> n \<and> n \<le> 122) \<or> (65 \<le> n \<and> n \<le> 90) \<or> (48 \<le> n \<and> n \<le> 57)
         \<or> c = CHR ''_'' \<or> c = CHR ''-'')"

text \<open>
  \<open>url.match(/LIT([a-zA-Z0-9_-]+)/)\<close> for a literal \<open>LIT\<close>: the capture of the leftmost
  position at which the literal is followed by at least one identifier character.
\<close>

definition capture_at :: "string \<Rightarrow> string \<Rightarrow> string option" where
  "capture_at lit s =
     (if prefix lit s \<and> takeWhile isIdChar (drop (length lit) s) \<noteq> []
      then Some (takeWhile isIdChar (drop (length lit) s))
      else None)"

fun match_capture :: "string list \<Rightarrow> string \<Rightarrow> string option" where
  "match_capture lits [] = None"
| "match_capture lits (c # cs) =
     (case List.find (\<lambda>r. r \<noteq> None) (map (\<lambda>lit. capture_at lit (c # cs)) lits) of
        Some r \<Rightarrow> r
      | None \<Rightarrow> match_capture lits cs)"


definition extractVideoIdFromUrl :: "string \<Rightarrow> string option" where
  "extractVideoIdFromUrl url = match_capture [''youtube.com/watch?v='', ''youtu.be/''] url"

record youtube_video =
  yv_id :: string
  yv_title :: string
  yv_description :: string
  yv_publishedAt :: string
  yv_channelId :: string
  yv_channelTitle :: string
  yv_thumbnail_high :: string
  yv_duration :: string
  yv_transcript :: "string option"







section \<open>Summarization (both agents)\<close>

definition pad2 :: "nat \<Rightarrow> string" where
  "pad2 n = (if n < 10 then CHR ''0'' # decimal n else decimal n)"

definition formatDuration :: "nat \<Rightarrow> string" where
  "formatDuration seconds =
     (let hours = seconds div 3600;
          minutes = (seconds mod 3600) div 60;
          secs = seconds mod 60
      in if hours > 0
         then decimal hours @ '':'' @ pad2 minutes @ '':'' @ pad2 secs
         else decimal minutes @ '':'' @ pad2 secs)"

definition toLowerCase :: "string \<Rightarrow> string" where
  "toLowerCase s =
     map (\<lambda>c. if 65 \<le> (of_char c :: nat) \<and> (of_char c :: nat) \<le> 90
              then char_of ((of_char c :: nat) + 32) else c) s"

definition is_transcript_tool :: "tool \<Rightarrow> bool" where
  "is_transcript_tool t =
     (case tool_name t of None \<Rightarrow> False | Some n \<Rightarrow> sublist ''transcript'' (toLowerCase n))"

definition getVideoTranscript :: "env \<Rightarrow> string \<Rightarrow> string option \<Rightarrow> string" where
  "getVideoTranscript e videoId userId =
     (if composioEnabled e \<and> truthy userId
      then (case List.find is_transcript_tool
                   (getToolsForAgent e (or_else userId []) ''youtube-agent'') of
              None \<Rightarrow> []
            | Some transcriptTool \<Rightarrow>
                (case tool_execute transcriptTool of
                   None \<Rightarrow> []
                 | Some execute \<Rightarrow>
                     (case execute videoId of
                        Inl err \<Rightarrow> []
                      | Inr ResultFalsy \<Rightarrow> []
                      | Inr (ResultString s) \<Rightarrow> s
                      | Inr (ResultObject t) \<Rightarrow> or_else t [])))
      else [])"

record summarize_data =
  sz_summaryId :: string
  sz_summary :: "string option"
  sz_keyPoints :: "string list option"
  sz_topics :: "string list option"
  sz_sentiment :: "string option"
  sz_confidence :: "int option"

definition new_summary_row ::
  "env \<Rightarrow> content_item \<Rightarrow> string \<Rightarrow> string \<Rightarrow> summary_data \<Rightarrow> summary_row" where
  "new_summary_row e item contentItemId userId summaryData =
     \<lparr>sm_id = ''summary_'' @ ci_id item @ ''_'' @ decimal (dateNow e 0),
      sm_contentItemId = contentItemId,
      sm_userId = userId,
      sm_summary = sd_summary summaryData,
      sm_keyPoints = sd_keyPoints summaryData,
      sm_sentiment = sd_sentiment summaryData,
      sm_topics = sd_topics summaryData,
      sm_aiModel = Some ''gpt-4o-mini'',
      sm_confidence = sd_confidence summaryData,
      sm_createdAt = Some (dateNow e 0)\<rparr>"

text \<open>
  The common tail of both \<open>handleSummarization\<close> functions, from \<open>llm.invoke(prompt)\<close>
  on: the two handlers differ only in how they obtain the text and in the prompt's
  variables.  The prompt is represented by the variables given to the template.
\<close>

definition summarize_and_store ::
  "env \<Rightarrow> content_item \<Rightarrow> string \<Rightarrow> string \<Rightarrow> (string \<times> string) list \<Rightarrow> db
     \<Rightarrow> summarize_data api_response \<times> db" where
  "summarize_and_store e item contentItemId userId prompt d =
     (case llm_invoke e prompt of
        Inl err \<Rightarrow> (Failure (error_message err ''Summarization failed''), d)
      | Inr response \<Rightarrow>
          (case parse_summary e response of
             Inl err \<Rightarrow> (Failure (error_message err ''Summarization failed''), d)
           | Inr summaryData \<Rightarrow>
               (case insert_summary (new_summary_row e item contentItemId userId summaryData) d of
                  Inl err \<Rightarrow> (Failure (error_message err ''Summarization failed''), d)
                | Inr d1 \<Rightarrow>
                    (Success
                       \<lparr>sz_summaryId = sm_id (new_summary_row e item contentItemId userId summaryData),
                        sz_summary = sd_summary summaryData,
                        sz_keyPoints = sd_keyPoints summaryData,
                        sz_topics = sd_topics summaryData,
                        sz_sentiment = sd_sentiment summaryData,
                        sz_confidence = sd_confidence summaryData\<rparr>,
                     if supabaseEnabled e
                     then upsertSummarySB (new_summary_row e item contentItemId userId summaryData) d1
                     else d1))))"

definition yt_transcript :: "env \<Rightarrow> content_item \<Rightarrow> string option \<Rightarrow> string option" where
  "yt_transcript e item userId =
     (if \<not> truthy (ci_content item) \<and> truthy (ci_url item)
      then (case extractVideoIdFromUrl (or_else (ci_url item) []) of
              None \<Rightarrow> ci_content item
            | Some videoId \<Rightarrow> Some (getVideoTranscript e videoId userId))
      else ci_content item)"

definition yt_prompt :: "content_item \<Rightarrow> string \<Rightarrow> (string \<times> string) list" where
  "yt_prompt item transcript =
     [(''title'', ci_title item),
      (''channel'', or_else (case ci_metadata item of None \<Rightarrow> None | Some m \<Rightarrow> md_author m)
                      ''Unknown''),
      (''duration'', formatDuration (case ci_metadata item of
                                       None \<Rightarrow> 0
                                     | Some m \<Rightarrow> (case md_duration m of None \<Rightarrow> 0 | Some n \<Rightarrow> n))),
      (''transcript'', take 8000 transcript)]"

definition yt_handleSummarization ::
  "env \<Rightarrow> agent_request \<Rightarrow> db \<Rightarrow> summarize_data api_response \<times> db" where
  "yt_handleSummarization e request d =
     (if \<not> truthy (req_contentItemId request) \<or> \<not> truthy (req_userId request)
      then (Failure ''contentItemId and userId are required for summarization'', d)
      else
        let contentItemId = or_else (req_contentItemId request) [];
            userId = or_else (req_userId request) [] in
        (case List.find (\<lambda>i. ci_id i = contentItemId) (contentItems d) of
           None \<Rightarrow> (Failure ''Content item not found'', d)
         | Some item \<Rightarrow>
             let transcript = yt_transcript e item (req_userId request) in
             if \<not> truthy transcript
             then (Failure ''No transcript available for this video'', d)
             else summarize_and_store e item contentItemId userId
                    (yt_prompt item (or_else transcript [])) d))"

definition rss_prompt :: "content_item \<Rightarrow> string \<Rightarrow> (string \<times> string) list" where
  "rss_prompt item content =
     [(''title'', ci_title item),
      (''author'', or_else (case ci_metadata item of None \<Rightarrow> None | Some m \<Rightarrow> md_author m)
                     ''Unknown''),
      (''publishedAt'', or_else (case ci_metadata item of
                                   None \<Rightarrow> None | Some m \<Rightarrow> md_publishedAt m)
                          ''Unknown''),
      (''content'', take 8000 content)]"

definition rss_handleSummarization ::
  "env \<Rightarrow> agent_request \<Rightarrow> db \<Rightarrow> summarize_data api_response \<times> db" where
  "rss_handleSummarization e request d =
     (if \<not> truthy (req_contentItemId request) \<or> \<not> truthy (req_userId request)
      then (Failure ''contentItemId and userId are required for summarization'', d)
      else
        let contentItemId = or_else (req_contentItemId request) [];
            userId = or_else (req_userId request) [] in
        (case List.find (\<lambda>i. ci_id i = contentItemId) (contentItems d) of
           None \<Rightarrow> (Failure ''Content item not found'', d)
         | Some item \<Rightarrow>
             if \<not> truthy (ci_content item)
             then (Failure ''No content available for this article'', d)
             else summarize_and_store e item contentItemId userId
                    (rss_prompt item (or_else (ci_content item) [])) d))"

section \<open>Storage fan-out (StorageManager)\<close>

record storage_location =
  sl_id :: string
  sl_summaryId :: string
  sl_provider :: string
  sl_externalId :: string
  sl_url :: "string option"

record storage_options =
  so_title :: "string option"
  so_parentId :: "string option"
  so_template :: "string option"
  so_tags :: "string list option"

text \<open>
  A storage provider as the manager sees it: whether it is configured, and what its
  \<open>createDocument\<close> answers (a location, or a thrown value).
\<close>

record storage_provider =
  sp_isConfigured :: bool
  sp_createDocument :: "summary_row \<Rightarrow> storage_options option \<Rightarrow> exn + storage_location"

type_synonym provider_map = "string \<rightharpoonup> storage_provider"

definition storeSummary ::
  "provider_map \<Rightarrow> string \<Rightarrow> summary_row \<Rightarrow> storage_options option \<Rightarrow> exn + storage_location" where
  "storeSummary providers provider summary options =
     (case providers provider of
        None \<Rightarrow> Inl (Error (''Storage provider '' @ [CHR 0x27] @ provider @ [CHR 0x27] @ '' not found''))
      | Some storageProvider \<Rightarrow>
          if \<not> sp_isConfigured storageProvider
          then Inl (Error (''Storage provider '' @ [CHR 0x27] @ provider @ [CHR 0x27]
                           @ '' is not configured''))
          else sp_createDocument storageProvider summary options)"

text \<open>
  The \<open>for (const provider of providers)\<close> loop of \<open>storeSummaryMultiple\<close> with its two
  accumulators, the locations and the error lines.
\<close>

fun store_loop ::
  "provider_map \<Rightarrow> string list \<Rightarrow> summary_row \<Rightarrow> storage_options option
     \<Rightarrow> storage_location list \<Rightarrow> string list \<Rightarrow> storage_location list \<times> string list" where
  "store_loop pm [] summary options results errors = (results, errors)"
| "store_loop pm (provider # rest) summary options results errors =
     (case storeSummary pm provider summary options of
        Inr location \<Rightarrow> store_loop pm rest summary options (results @ [location]) errors
      | Inl err \<Rightarrow>
          store_loop pm rest summary options results
            (errors @ [provider @ '': '' @ error_message err ''Unknown error'']))"

definition storeSummaryMultiple ::
  "provider_map \<Rightarrow> string list \<Rightarrow> summary_row \<Rightarrow> storage_options option
     \<Rightarrow> exn + storage_location list" where
  "storeSummaryMultiple pm providers summary options =
     (case store_loop pm providers summary options [] [] of
        (results, errors) \<Rightarrow>
          if length results = 0
          then Inl (Error (''Failed to store in any provider. Errors: '' @ join '', '' errors))
          else Inr results)"

section \<open>The orchestrator's monitoring cycle\<close>






definition agent_for :: "string \<Rightarrow> string option" where
  "agent_for t =
     (if t = ''youtube'' then Some ''youtube-agent''
      else if t = ''rss'' then Some ''rss-agent''
      else if t = ''newsletter'' then Some ''newsletter-agent''
      else None)"






section \<open>Notions used to state the properties\<close>

definition is_success :: "'a api_response \<Rightarrow> bool" where
  "is_success r = (case r of Success x \<Rightarrow> True | Failure m \<Rightarrow> False)"


text \<open>An oracle that is only willing to answer prompts whose variable \<open>v\<close> is \<open>text\<close>.\<close>

definition only_asked :: "string \<Rightarrow> string \<Rightarrow> env \<Rightarrow> env" where
  "only_asked v text e =
     e\<lparr>llm_invoke := (\<lambda>p. if map_of p v = Some text then llm_invoke e p
                          else Inl (Error ''unexpected prompt''))\<rparr>"

text \<open>The number of stored content items of a source with a given locator.\<close>

definition stored :: "db \<Rightarrow> string \<Rightarrow> string \<Rightarrow> nat" where
  "stored d sourceId url =
     length (filter (\<lambda>r. ci_sourceId r = sourceId \<and> ci_url r = Some url) (contentItems d))"


section \<open>Concrete inputs\<close>

definition example_item :: "string \<Rightarrow> string \<Rightarrow> string \<Rightarrow> string \<Rightarrow> content_item" where
  "example_item i sourceId url content =
     \<lparr>ci_id = i, ci_sourceId = sourceId, ci_type = ''article'', ci_title = ''T'',
      ci_url = Some url, ci_content = Some content, ci_metadata = None,
      ci_publishedAt = None, ci_createdAt = None\<rparr>"

definition example_source :: "string \<Rightarrow> string \<Rightarrow> string \<Rightarrow> content_source" where
  "example_source i t url =
     \<lparr>cs_id = i, cs_userId = ''u1'', cs_type = t, cs_name = ''N'', cs_url = url,
      cs_metadata = None, cs_isActive = Some True, cs_createdAt = None, cs_updatedAt = None\<rparr>"

definition example_db :: "content_source list \<Rightarrow> content_item list \<Rightarrow> db" where
  "example_db sources items =
     \<lparr>contentSources = sources, contentItems = items, summaries = [],
      sb_content_items = [], sb_summaries = []\<rparr>"

definition example_summary_data :: summary_data where
  "example_summary_data =
     \<lparr>sd_summary = Some ''S'', sd_keyPoints = Some [''p''], sd_topics = Some [''t''],
      sd_sentiment = Some ''neutral'', sd_confidence = Some 85\<rparr>"

definition example_feed_item :: "string option \<Rightarrow> feed_item" where
  "example_feed_item link =
     \<lparr>fi_title = Some ''A'', fi_link = link, fi_creator = None, fi_dc_creator = None,
      fi_pubDate = None, fi_isoDate = None, fi_categories = None, fi_content_encoded = None,
      fi_content = None, fi_description = Some ''<p>x</p>'', fi_summary = None,
      fi_contentSnippet = None\<rparr>"

definition example_feed :: feed where
  "example_feed =
     \<lparr>feed_title = Some ''F'',
      feed_items =
        [example_feed_item (Some ''https://a/1''), example_feed_item None,
         example_feed_item (Some ''https://a/1''), example_feed_item (Some []),
         example_feed_item (Some ''https://a/2'')]\<rparr>"

text \<open>
  An environment whose clock reads \<open>t\<close>, whose feed parser knows one feed and throws on
  every other address, and whose oracle answers with a well-formed summary.
\<close>

definition example_env :: "nat \<Rightarrow> env" where
  "example_env t =
     \<lparr>generateId = (\<lambda>k. ''r'' @ decimal k),
      dateNow = (\<lambda>k. t),
      toISOString = decimal,
      newDate = (\<lambda>s. 0),
      supabaseEnabled = True,
      composioEnabled = False,
      composioTools = (\<lambda>u a. []),
      parseURL = (\<lambda>u. if u = ''https://a/feed'' then Inr example_feed
                        else Inl (Error ''getaddrinfo ENOTFOUND'')),
      llm_invoke = (\<lambda>p. Inr ''{...}''),
      parse_summary = (\<lambda>s. Inr example_summary_data)\<rparr>"


definition example_request :: agent_request where
  "example_request =
     \<lparr>req_sourceId = Some ''s1'', req_contentItemId = Some ''i1'', req_userId = Some ''u1''\<rparr>"

definition example_db1 :: db where
  "example_db1 =
     example_db [example_source ''s1'' ''rss'' ''https://a/feed'']
       [example_item ''i1'' ''s1'' ''https://a/0'' ''hello'']"



text \<open>The store after a first, successful summarization of item \<open>i1\<close> at time 1.\<close>

definition example_db2 :: db where
  "example_db2 = snd (yt_handleSummarization (example_env 1) example_request example_db1)"

text \<open>
  The distinct locators of a candidate sequence: the non-empty links of a feed's items,
  and the watch addresses of a list of videos.
\<close>

definition feed_links :: "feed_item list \<Rightarrow> string set" where
  "feed_links items = {l. \<exists>it \<in> set items. fi_link it = Some l \<and> l \<noteq> []}"


text \<open>
  What the providers of a request answer, taken one by one: the locations of those that
  succeed and the error lines of those that fail, each in the order of the request.
\<close>

definition stored_locations ::
  "provider_map \<Rightarrow> string list \<Rightarrow> summary_row \<Rightarrow> storage_options option \<Rightarrow> storage_location list" where
  "stored_locations pm providers summary options =
     List.map_filter
       (\<lambda>p. case storeSummary pm p summary options of Inr loc \<Rightarrow> Some loc | Inl err \<Rightarrow> None)
       providers"

definition error_lines ::
  "provider_map \<Rightarrow> string list \<Rightarrow> summary_row \<Rightarrow> storage_options option \<Rightarrow> string list" where
  "error_lines pm providers summary options =
     List.map_filter
       (\<lambda>p. case storeSummary pm p summary options of
              Inr loc \<Rightarrow> None
            | Inl err \<Rightarrow> Some (p @ '': '' @ error_message err ''Unknown error''))
       providers"

definition example_location :: "string \<Rightarrow> summary_row \<Rightarrow> storage_location" where
  "example_location p s =
     \<lparr>sl_id = p @ ''_1'', sl_summaryId = sm_id s, sl_provider = p, sl_externalId = ''x1'',
      sl_url = None\<rparr>"

text \<open>Three providers, the second of which is not configured.\<close>

definition example_providers :: provider_map where
  "example_providers =
     [''notion'' \<mapsto> \<lparr>sp_isConfigured = True,
                      sp_createDocument = (\<lambda>s opts. Inr (example_location ''notion'' s))\<rparr>,
      ''archive'' \<mapsto> \<lparr>sp_isConfigured = False,
                       sp_createDocument = (\<lambda>s opts. Inr (example_location ''archive'' s))\<rparr>,
      ''google_docs'' \<mapsto> \<lparr>sp_isConfigured = True,
                           sp_createDocument = (\<lambda>s opts. Inr (example_location ''google_docs'' s))\<rparr>]"

definition example_summary :: summary_row where
  "example_summary =
     \<lparr>sm_id = ''summary_i1_1'', sm_contentItemId = ''i1'', sm_userId = ''u1'',
      sm_summary = Some ''S'', sm_keyPoints = None, sm_sentiment = None, sm_topics = None,
      sm_aiModel = None, sm_confidence = None, sm_createdAt = None\<rparr>"


section \<open>Duration parsing\<close>

declare decimal.simps [simp del]




















section \<open>HTML stripping\<close>









section \<open>The store's uniqueness constraints\<close>

lemma unique_keys_contentItems: "unique_keys contentItems_table = [[''id'']]"
  by (simp add: unique_keys_def contentItems_table_def column_def primaryKey_def notNull_def
      withDefault_def index_def)

lemma unique_keys_summaries: "unique_keys summaries_table = [[''id'']]"
  by (simp add: unique_keys_def summaries_table_def column_def primaryKey_def notNull_def
      withDefault_def index_def)

lemma notNull_contentItems:
  "\<not> list_ex (\<lambda>c. col_notNull c \<and> \<not> col_hasDefault c \<and> content_item_row r (col_name c) = SqlNull)
       (tbl_columns contentItems_table)"
  by (simp add: contentItems_table_def column_def primaryKey_def notNull_def withDefault_def
      content_item_row_def)

lemma notNull_summaries:
  "list_ex (\<lambda>c. col_notNull c \<and> \<not> col_hasDefault c \<and> summary_row_row r (col_name c) = SqlNull)
       (tbl_columns summaries_table) \<longleftrightarrow> sm_summary r = None"
  by (simp add: summaries_table_def column_def primaryKey_def notNull_def withDefault_def
      summary_row_row_def sql_text_def split: option.split)

lemma conflict_contentItems:
  "list_ex (\<lambda>key. list_ex (\<lambda>old. key_conflict (content_item_row r) old key)
                    (map content_item_row rows)) [[''id'']]
   \<longleftrightarrow> list_ex (\<lambda>x. ci_id x = ci_id r) rows"
  by (simp add: key_conflict_def content_item_row_def list_ex_iff)

lemma conflict_summaries:
  "list_ex (\<lambda>key. list_ex (\<lambda>old. key_conflict (summary_row_row r) old key)
                    (map summary_row_row rows)) [[''id'']]
   \<longleftrightarrow> list_ex (\<lambda>x. sm_id x = sm_id r) rows"
  by (simp add: key_conflict_def summary_row_row_def list_ex_iff)

lemma insert_contentItem_eq:
  "insert_contentItem r d =
     (if list_ex (\<lambda>x. ci_id x = ci_id r) (contentItems d)
      then Inl (Error ''Duplicate entry'')
      else Inr (d\<lparr>contentItems := contentItems d @ [r]\<rparr>))"
  unfolding insert_contentItem_def insert_violation_def unique_keys_contentItems
  by (simp only: notNull_contentItems conflict_contentItems if_False split: if_split) simp

lemma insert_summary_eq:
  "insert_summary r d =
     (if sm_summary r = None then Inl (Error ''Column cannot be null'')
      else if list_ex (\<lambda>x. sm_id x = sm_id r) (summaries d)
      then Inl (Error ''Duplicate entry'')
      else Inr (d\<lparr>summaries := summaries d @ [r]\<rparr>))"
  unfolding insert_summary_def insert_violation_def unique_keys_summaries
  by (simp only: notNull_summaries conflict_summaries split: if_split) simp

text \<open>
  Claim C2, as the code has it.  The only unique key of \<open>content_items\<close>, and of
  \<open>summaries\<close>, is the primary key \<open>id\<close>: the indexes on \<open>source_id\<close> and on
  \<open>content_item_id\<close> are plain indexes and there is none on \<open>url\<close>.  So the store
  accepts every content item whose id is new, whatever its (source id, locator) pair,
  and every summary with a text whose id is new, whatever its content item id.
\<close>

theorem store_unique_on_id_only:
  "unique_keys contentItems_table = [[''id'']] \<and>
   unique_keys summaries_table = [[''id'']] \<and>
   (\<forall>r d. \<not> list_ex (\<lambda>x. ci_id x = ci_id r) (contentItems d) \<longrightarrow>
      insert_contentItem r d = Inr (d\<lparr>contentItems := contentItems d @ [r]\<rparr>)) \<and>
   (\<forall>r d. sm_summary r \<noteq> None \<and> \<not> list_ex (\<lambda>x. sm_id x = sm_id r) (summaries d) \<longrightarrow>
      insert_summary r d = Inr (d\<lparr>summaries := summaries d @ [r]\<rparr>))"
  by (simp add: unique_keys_contentItems unique_keys_summaries insert_contentItem_eq
      insert_summary_eq)

theorem store_unique_on_id_only_witness:
  "\<not> list_ex (\<lambda>x. ci_id x = ci_id (example_item ''i2'' ''s1'' ''https://a/0'' ''hello''))
       (contentItems example_db1) \<and>
   stored example_db1 ''s1'' ''https://a/0'' = 1 \<and>
   (\<exists>d. insert_contentItem (example_item ''i2'' ''s1'' ''https://a/0'' ''hello'') example_db1 = Inr d
        \<and> stored d ''s1'' ''https://a/0'' = 2)"
proof -
  have a: "\<not> list_ex (\<lambda>x. ci_id x = ci_id (example_item ''i2'' ''s1'' ''https://a/0'' ''hello''))
       (contentItems example_db1)"
    by (simp add: example_db1_def example_db_def example_item_def)
  from store_unique_on_id_only have
    "\<forall>r d. \<not> list_ex (\<lambda>x. ci_id x = ci_id r) (contentItems d) \<longrightarrow>
      insert_contentItem r d = Inr (d\<lparr>contentItems := contentItems d @ [r]\<rparr>)"
    by blast
  with a have
    "insert_contentItem (example_item ''i2'' ''s1'' ''https://a/0'' ''hello'') example_db1 =
       Inr (example_db1\<lparr>contentItems := contentItems example_db1
              @ [example_item ''i2'' ''s1'' ''https://a/0'' ''hello'']\<rparr>)"
    by blast
  moreover have "stored example_db1 ''s1'' ''https://a/0'' = 1"
    by (simp add: stored_def example_db1_def example_db_def example_item_def)
  moreover have
    "stored (example_db1\<lparr>contentItems := contentItems example_db1
              @ [example_item ''i2'' ''s1'' ''https://a/0'' ''hello'']\<rparr>) ''s1'' ''https://a/0'' = 2"
    by (simp add: stored_def example_db1_def example_db_def example_item_def)
  ultimately show ?thesis using a by simp
qed

text \<open>
  The claim as stated fails: a second content item with the (source id, locator) pair
  of a stored one, under another id, is inserted without conflict, and the pair is not
  a unique key of the table.
\<close>

theorem duplicate_pair_insert_accepted:
  "[''source_id'', ''url''] \<notin> set (unique_keys contentItems_table) \<and>
   [''content_item_id''] \<notin> set (unique_keys summaries_table) \<and>
   insert_contentItem (example_item ''i2'' ''s1'' ''https://a/0'' ''hello'')
       (example_db [] [example_item ''i1'' ''s1'' ''https://a/0'' ''hello''])
     = Inr (example_db [] [example_item ''i1'' ''s1'' ''https://a/0'' ''hello'',
                           example_item ''i2'' ''s1'' ''https://a/0'' ''hello''])"
proof (intro conjI)
  show "[''source_id'', ''url''] \<notin> set (unique_keys contentItems_table)"
    by (simp add: unique_keys_contentItems)
  show "[''content_item_id''] \<notin> set (unique_keys summaries_table)"
    by (simp add: unique_keys_summaries)
  show "insert_contentItem (example_item ''i2'' ''s1'' ''https://a/0'' ''hello'')
       (example_db [] [example_item ''i1'' ''s1'' ''https://a/0'' ''hello''])
     = Inr (example_db [] [example_item ''i1'' ''s1'' ''https://a/0'' ''hello'',
                           example_item ''i2'' ''s1'' ''https://a/0'' ''hello''])"
    by code_simp
qed

section \<open>Summarization\<close>

lemma summarize_and_store_Success:
  assumes "summarize_and_store e item cid uid prompt d = (Success out, d')"
  shows "\<exists>row. summaries d' = summaries d @ [row] \<and> sm_contentItemId row = cid
           \<and> sm_id row = sz_summaryId out \<and> sm_summary row \<noteq> None
           \<and> \<not> list_ex (\<lambda>x. sm_id x = sm_id row) (summaries d)
           \<and> contentItems d' = contentItems d"
  using assms
  by (auto simp: summarize_and_store_def insert_summary_eq new_summary_row_def upsertSummarySB_def
      split: sum.splits if_splits)



lemma yt_handleSummarization_cases:
  "(\<exists>msg. yt_handleSummarization e request d = (Failure msg, d)) \<or>
   (\<exists>item text. truthy (req_contentItemId request) \<and> truthy (req_userId request)
      \<and> List.find (\<lambda>i. ci_id i = or_else (req_contentItemId request) []) (contentItems d) = Some item
      \<and> yt_transcript e item (req_userId request) = Some text \<and> text \<noteq> []
      \<and> yt_handleSummarization e request d =
          summarize_and_store e item (or_else (req_contentItemId request) [])
            (or_else (req_userId request) []) (yt_prompt item text) d)"
proof (cases "truthy (req_contentItemId request) \<and> truthy (req_userId request)")
  case False
  then show ?thesis by (auto simp: yt_handleSummarization_def)
next
  case True
  note ok = True
  show ?thesis
  proof (cases "List.find (\<lambda>i. ci_id i = or_else (req_contentItemId request) []) (contentItems d)")
    case None
    with ok show ?thesis by (simp add: yt_handleSummarization_def)
  next
    case (Some item)
    show ?thesis
    proof (cases "truthy (yt_transcript e item (req_userId request))")
      case False
      with ok Some show ?thesis by (simp add: yt_handleSummarization_def Let_def)
    next
      case True
      then obtain body where t: "yt_transcript e item (req_userId request) = Some body" "body \<noteq> []"
        by (auto simp: truthy_def split: option.splits)
      then have "or_else (yt_transcript e item (req_userId request)) [] = body"
        by (simp add: or_else_def)
      with ok Some True t show ?thesis
        by (simp add: yt_handleSummarization_def Let_def)
    qed
  qed
qed

lemma rss_handleSummarization_cases:
  "(\<exists>msg. rss_handleSummarization e request d = (Failure msg, d)) \<or>
   (\<exists>item text. truthy (req_contentItemId request) \<and> truthy (req_userId request)
      \<and> List.find (\<lambda>i. ci_id i = or_else (req_contentItemId request) []) (contentItems d) = Some item
      \<and> ci_content item = Some text \<and> text \<noteq> []
      \<and> rss_handleSummarization e request d =
          summarize_and_store e item (or_else (req_contentItemId request) [])
            (or_else (req_userId request) []) (rss_prompt item text) d)"
proof (cases "truthy (req_contentItemId request) \<and> truthy (req_userId request)")
  case False
  then show ?thesis by (auto simp: rss_handleSummarization_def)
next
  case True
  note ok = True
  show ?thesis
  proof (cases "List.find (\<lambda>i. ci_id i = or_else (req_contentItemId request) []) (contentItems d)")
    case None
    with ok show ?thesis by (simp add: rss_handleSummarization_def)
  next
    case (Some item)
    show ?thesis
    proof (cases "truthy (ci_content item)")
      case False
      with ok Some show ?thesis by (simp add: rss_handleSummarization_def Let_def)
    next
      case True
      then obtain body where t: "ci_content item = Some body" "body \<noteq> []"
        by (auto simp: truthy_def split: option.splits)
      then have "or_else (ci_content item) [] = body"
        by (simp add: or_else_def)
      with ok Some True t show ?thesis
        by (simp add: rss_handleSummarization_def Let_def)
    qed
  qed
qed

lemma handleSummarization_Success:
  assumes "yt_handleSummarization e request d = (Success out, d')
           \<or> rss_handleSummarization e request d = (Success out, d')"
  shows "\<exists>row. summaries d' = summaries d @ [row]
           \<and> sm_contentItemId row = or_else (req_contentItemId request) []
           \<and> sm_id row = sz_summaryId out
           \<and> \<not> list_ex (\<lambda>x. sm_id x = sm_id row) (summaries d)"
  using assms
proof
  assume a: "yt_handleSummarization e request d = (Success out, d')"
  with yt_handleSummarization_cases [of e request d] obtain item body where
    "summarize_and_store e item (or_else (req_contentItemId request) [])
        (or_else (req_userId request) []) (yt_prompt item body) d = (Success out, d')"
    by auto
  from summarize_and_store_Success [OF this] show ?thesis by blast
next
  assume a: "rss_handleSummarization e request d = (Success out, d')"
  with rss_handleSummarization_cases [of e request d] obtain item body where
    "summarize_and_store e item (or_else (req_contentItemId request) [])
        (or_else (req_userId request) []) (rss_prompt item body) d = (Success out, d')"
    by auto
  from summarize_and_store_Success [OF this] show ?thesis by blast
qed

text \<open>
  Claim C1, as the code has it.  Neither handler looks for an existing summary, and
  the store is unique on the summary id only (\<open>summary_<item id>_<milliseconds>\<close>).
  So every successful \<open>summarize\<close> call, of either agent, appends exactly one new
  Summary row for the requested content item and returns that new row's id: the number
  of Summary rows of the item grows by one with each successful call, also when the
  item already has one.
\<close>

theorem summarize_appends_row:
  assumes "yt_handleSummarization e request d = (Success out, d')
           \<or> rss_handleSummarization e request d = (Success out, d')"
  shows "\<exists>row. summaries d' = summaries d @ [row]
           \<and> sm_contentItemId row = or_else (req_contentItemId request) []
           \<and> sm_id row = sz_summaryId out
           \<and> \<not> list_ex (\<lambda>x. sm_id x = sm_id row) (summaries d)
           \<and> length (filter (\<lambda>s. sm_contentItemId s = or_else (req_contentItemId request) [])
                       (summaries d'))
             = Suc (length (filter (\<lambda>s. sm_contentItemId s = or_else (req_contentItemId request) [])
                       (summaries d)))"
proof -
  from handleSummarization_Success [OF assms] obtain row where
    r: "summaries d' = summaries d @ [row]"
       "sm_contentItemId row = or_else (req_contentItemId request) []"
       "sm_id row = sz_summaryId out"
       "\<not> list_ex (\<lambda>x. sm_id x = sm_id row) (summaries d)"
    by blast
  then show ?thesis by auto
qed

theorem summarize_appends_row_witness:
  "\<exists>out d'. yt_handleSummarization (example_env 2) example_request example_db2 = (Success out, d')
      \<and> length (filter (\<lambda>s. sm_contentItemId s = ''i1'') (summaries example_db2)) = 1
      \<and> length (filter (\<lambda>s. sm_contentItemId s = ''i1'') (summaries d')) = 2"
proof -
  have "is_success (fst (yt_handleSummarization (example_env 2) example_request example_db2))"
    by code_simp
  then obtain out where
    "fst (yt_handleSummarization (example_env 2) example_request example_db2) = Success out"
    by (cases "fst (yt_handleSummarization (example_env 2) example_request example_db2)")
       (simp_all add: is_success_def)
  then have run: "yt_handleSummarization (example_env 2) example_request example_db2
      = (Success out, snd (yt_handleSummarization (example_env 2) example_request example_db2))"
    by (simp add: prod_eq_iff)
  have before: "length (filter (\<lambda>s. sm_contentItemId s = ''i1'') (summaries example_db2)) = 1"
    by code_simp
  have cid: "or_else (req_contentItemId example_request) [] = ''i1''"
    by (simp add: example_request_def or_else_def)
  from summarize_appends_row [of "example_env 2" example_request example_db2 out, OF disjI1, OF run]
  have "length (filter (\<lambda>s. sm_contentItemId s = ''i1'')
            (summaries (snd (yt_handleSummarization (example_env 2) example_request example_db2))))
        = Suc (length (filter (\<lambda>s. sm_contentItemId s = ''i1'') (summaries example_db2)))"
    unfolding cid by blast
  with before have after:
    "length (filter (\<lambda>s. sm_contentItemId s = ''i1'')
            (summaries (snd (yt_handleSummarization (example_env 2) example_request example_db2))))
        = 2"
    by simp
  from run before after show ?thesis by blast
qed

text \<open>
  The claim as stated fails: after a first successful summarization of item \<open>i1\<close>, a
  second call one millisecond later succeeds as well, returns a new summary id and
  leaves two Summary rows for the item.
\<close>

theorem second_summarize_adds_row:
  "map sm_id (summaries example_db2) = [''summary_i1_1''] \<and>
   is_success (fst (yt_handleSummarization (example_env 2) example_request example_db2)) \<and>
   map sm_contentItemId
     (summaries (snd (yt_handleSummarization (example_env 2) example_request example_db2)))
     = [''i1'', ''i1''] \<and>
   map sm_id
     (summaries (snd (yt_handleSummarization (example_env 2) example_request example_db2)))
     = [''summary_i1_1'', ''summary_i1_2'']"
  by code_simp



lemma only_asked_fields [simp]:
  "generateId (only_asked v t e) = generateId e"
  "dateNow (only_asked v t e) = dateNow e"
  "supabaseEnabled (only_asked v t e) = supabaseEnabled e"
  "composioEnabled (only_asked v t e) = composioEnabled e"
  "composioTools (only_asked v t e) = composioTools e"
  "parse_summary (only_asked v t e) = parse_summary e"
  by (simp_all add: only_asked_def)








section \<open>Storage fan-out\<close>

lemma store_loop_eq:
  "store_loop pm providers summary options results errors =
     (results @ stored_locations pm providers summary options,
      errors @ error_lines pm providers summary options)"
proof (induction providers arbitrary: results errors)
  case Nil
  show ?case by (simp add: stored_locations_def error_lines_def List.map_filter_simps)
next
  case (Cons p ps)
  show ?case
  proof (cases "storeSummary pm p summary options")
    case (Inl err)
    with Cons show ?thesis
      by (simp add: stored_locations_def error_lines_def List.map_filter_simps)
  next
    case (Inr loc)
    with Cons show ?thesis
      by (simp add: stored_locations_def error_lines_def List.map_filter_simps)
  qed
qed

lemma stored_locations_Nil_iff:
  "stored_locations pm providers summary options = [] \<longleftrightarrow>
     (\<forall>p \<in> set providers. \<exists>err. storeSummary pm p summary options = Inl err)"
  by (induction providers)
     (auto simp: stored_locations_def List.map_filter_simps split: sum.splits)

text \<open>
  Claim C7, as the code has it.  Every requested provider is tried, in the order of the
  request, whatever the earlier ones did.  When at least one provider succeeds the call
  returns the list of the locations of the providers that succeeded, and nothing else:
  the failures are not part of the returned value.  When no provider succeeds (all
  fail, or none was requested) the call throws one error whose message joins the
  per-provider error lines.
\<close>

theorem storeSummaryMultiple_result:
  "storeSummaryMultiple pm providers summary options =
     (if stored_locations pm providers summary options = []
      then Inl (Error (''Failed to store in any provider. Errors: ''
                        @ join '', '' (error_lines pm providers summary options)))
      else Inr (stored_locations pm providers summary options))
   \<and> ((\<exists>locs. storeSummaryMultiple pm providers summary options = Inr locs) \<longleftrightarrow>
        (\<exists>p \<in> set providers. \<exists>loc. storeSummary pm p summary options = Inr loc))"
proof
  show eq: "storeSummaryMultiple pm providers summary options =
     (if stored_locations pm providers summary options = []
      then Inl (Error (''Failed to store in any provider. Errors: ''
                        @ join '', '' (error_lines pm providers summary options)))
      else Inr (stored_locations pm providers summary options))"
    by (simp add: storeSummaryMultiple_def store_loop_eq)
  have "(\<exists>locs. storeSummaryMultiple pm providers summary options = Inr locs) \<longleftrightarrow>
        stored_locations pm providers summary options \<noteq> []"
    by (simp add: eq)
  also have "\<dots> \<longleftrightarrow> (\<exists>p \<in> set providers. \<exists>loc. storeSummary pm p summary options = Inr loc)"
    by (simp add: stored_locations_Nil_iff) (metis sum.exhaust sum.distinct(1))
  finally show "(\<exists>locs. storeSummaryMultiple pm providers summary options = Inr locs) \<longleftrightarrow>
        (\<exists>p \<in> set providers. \<exists>loc. storeSummary pm p summary options = Inr loc)" .
qed

text \<open>
  The claim as stated fails: with three providers of which the second is not
  configured, the returned value is the list of the two locations, the same value as
  when only the two working providers are requested; the failure is not recorded in it.
\<close>

theorem provider_failure_not_returned:
  "storeSummaryMultiple example_providers [''notion'', ''archive'', ''google_docs'']
       example_summary None
     = Inr [example_location ''notion'' example_summary,
            example_location ''google_docs'' example_summary] \<and>
   storeSummaryMultiple example_providers [''notion'', ''google_docs''] example_summary None
     = Inr [example_location ''notion'' example_summary,
            example_location ''google_docs'' example_summary] \<and>
   storeSummary example_providers ''archive'' example_summary None
     = Inl (Error ''Storage provider 'archive' is not configured'')"
  by (simp add: storeSummaryMultiple_def storeSummary_def example_providers_def)

section \<open>The orchestrator's monitoring cycle\<close>



lemma agent_for_known:
  "t \<in> {''youtube'', ''rss'', ''newsletter''} \<Longrightarrow> agent_for t \<noteq> None"
  by (auto simp: agent_for_def)



section \<open>Monitoring: deduplication and idempotence\<close>

lemma stored_zero_iff:
  "stored d s l = 0 \<longleftrightarrow>
     List.find (\<lambda>r. ci_sourceId r = s \<and> ci_url r = Some l) (contentItems d) = None"
  by (auto simp: stored_def find_None_iff filter_empty_conv)

lemma stored_add:
  "stored (d\<lparr>contentItems := contentItems d @ [r]\<rparr>) s l =
     stored d s l + (if ci_sourceId r = s \<and> ci_url r = Some l then 1 else 0)"
  by (simp add: stored_def)

lemma stored_upsert: "stored (upsertContentItemSB r d) s l = stored d s l"
  by (simp add: stored_def upsertContentItemSB_def)

lemma rss_new_item_key:
  "ci_sourceId (rss_new_item e sid k it) = sid"
  "ci_url (rss_new_item e sid k it) = Some (or_else (fi_link it) [])"
  by (simp_all add: rss_new_item_def)

lemma feed_links_Nil: "feed_links [] = {}"
  by (simp add: feed_links_def)

lemma feed_links_Cons:
  "feed_links (it # items) =
     (if truthy (fi_link it) then insert (or_else (fi_link it) []) (feed_links items)
      else feed_links items)"
  by (auto simp: feed_links_def truthy_def or_else_def split: option.splits)

lemma finite_feed_links: "finite (feed_links items)"
  by (induction items) (simp_all add: feed_links_Nil feed_links_Cons)

lemma feed_links_nonempty: "l \<in> feed_links items \<Longrightarrow> l \<noteq> []"
  by (auto simp: feed_links_def)

text \<open>One iteration of the feed agent's loop, with the store's answer written out.\<close>

lemma rss_step:
  "rss_monitor_loop e sid (it # items) k n d =
     (if stored d sid (or_else (fi_link it) []) = 0 \<and> truthy (fi_link it)
      then (if list_ex (\<lambda>x. ci_id x = ci_id (rss_new_item e sid k it)) (contentItems d)
            then (Inl (Error ''Duplicate entry''), d)
            else rss_monitor_loop e sid items (Suc k) (Suc n)
                   (if supabaseEnabled e
                    then upsertContentItemSB (rss_new_item e sid k it)
                           (d\<lparr>contentItems := contentItems d @ [rss_new_item e sid k it]\<rparr>)
                    else d\<lparr>contentItems := contentItems d @ [rss_new_item e sid k it]\<rparr>))
      else rss_monitor_loop e sid items (Suc k) n d)"
  by (simp add: stored_zero_iff insert_contentItem_eq Let_def)

lemma rss_loop_success:
  assumes "rss_monitor_loop e sid items k n d = (Inr n', d')"
  shows "(\<forall>s l. stored d' s l =
            (if s = sid \<and> l \<in> feed_links items \<and> stored d sid l = 0 then 1 else stored d s l))
         \<and> n' = n + card {l \<in> feed_links items. stored d sid l = 0}"
  using assms
proof (induction items arbitrary: k n d)
  case Nil
  then show ?case by (simp add: feed_links_Nil)
next
  case (Cons it items)
  let ?l = "or_else (fi_link it) []"
  let ?row = "rss_new_item e sid k it"
  show ?case
  proof (cases "stored d sid ?l = 0 \<and> truthy (fi_link it)")
    case False
    with Cons.prems have "rss_monitor_loop e sid items (Suc k) n d = (Inr n', d')"
      by (simp add: rss_step del: rss_monitor_loop.simps)
    from Cons.IH [OF this] have
      ih1: "\<forall>s l. stored d' s l =
            (if s = sid \<and> l \<in> feed_links items \<and> stored d sid l = 0 then 1 else stored d s l)"
      and ih2: "n' = n + card {l \<in> feed_links items. stored d sid l = 0}"
      by blast+
    have same: "(l \<in> feed_links (it # items) \<and> stored d sid l = 0)
                 \<longleftrightarrow> (l \<in> feed_links items \<and> stored d sid l = 0)" for l
      using False by (auto simp: feed_links_Cons)
    then have "{l \<in> feed_links (it # items). stored d sid l = 0}
                 = {l \<in> feed_links items. stored d sid l = 0}"
      by blast
    with ih1 ih2 same show ?thesis by simp
  next
    case True
    define d1 where
      "d1 = (if supabaseEnabled e
             then upsertContentItemSB ?row (d\<lparr>contentItems := contentItems d @ [?row]\<rparr>)
             else d\<lparr>contentItems := contentItems d @ [?row]\<rparr>)"
    from True Cons.prems have rec: "rss_monitor_loop e sid items (Suc k) (Suc n) d1 = (Inr n', d')"
      unfolding d1_def
      by (simp add: rss_step del: rss_monitor_loop.simps split: if_splits)
    have st1: "stored d1 s l = stored d s l + (if s = sid \<and> l = ?l then 1 else 0)" for s l
      by (auto simp: d1_def stored_add stored_upsert rss_new_item_key)
    from Cons.IH [OF rec] have
      ih1: "\<forall>s l. stored d' s l =
            (if s = sid \<and> l \<in> feed_links items \<and> stored d1 sid l = 0 then 1 else stored d1 s l)"
      and ih2: "n' = Suc n + card {l \<in> feed_links items. stored d1 sid l = 0}"
      by blast+
    have fl: "feed_links (it # items) = insert ?l (feed_links items)"
      using True by (simp add: feed_links_Cons)
    have A: "\<forall>s l. stored d' s l =
            (if s = sid \<and> l \<in> feed_links (it # items) \<and> stored d sid l = 0 then 1
             else stored d s l)"
      using ih1 True by (auto simp: st1 fl)
    have S: "{l \<in> feed_links (it # items). stored d sid l = 0}
               = insert ?l {l \<in> feed_links items. stored d1 sid l = 0}"
      using True by (auto simp: st1 fl)
    have "?l \<notin> {l \<in> feed_links items. stored d1 sid l = 0}"
      by (simp add: st1)
    moreover have "finite {l \<in> feed_links items. stored d1 sid l = 0}"
      by (simp add: finite_feed_links)
    ultimately have "card {l \<in> feed_links (it # items). stored d sid l = 0}
                       = Suc (card {l \<in> feed_links items. stored d1 sid l = 0})"
      by (simp add: S)
    with ih2 A show ?thesis by simp
  qed
qed

lemma rss_loop_rows:
  assumes "rss_monitor_loop e sid items k n d = (res, d')"
  shows "\<exists>new. contentItems d' = contentItems d @ new
           \<and> (\<forall>r \<in> set new. ci_sourceId r = sid \<and> (\<exists>l \<in> feed_links items. ci_url r = Some l))
           \<and> contentSources d' = contentSources d \<and> summaries d' = summaries d"
  using assms
proof (induction items arbitrary: k n d)
  case Nil
  then show ?case by simp
next
  case (Cons it items)
  let ?l = "or_else (fi_link it) []"
  let ?row = "rss_new_item e sid k it"
  have sub: "feed_links items \<subseteq> feed_links (it # items)"
    by (auto simp: feed_links_Cons)
  show ?case
  proof (cases "stored d sid ?l = 0 \<and> truthy (fi_link it)")
    case False
    with Cons.prems have "rss_monitor_loop e sid items (Suc k) n d = (res, d')"
      by (simp add: rss_step del: rss_monitor_loop.simps)
    from Cons.IH [OF this] sub show ?thesis by blast
  next
    case True
    show ?thesis
    proof (cases "list_ex (\<lambda>x. ci_id x = ci_id ?row) (contentItems d)")
      case dup: True
      with \<open>stored d sid ?l = 0 \<and> truthy (fi_link it)\<close> Cons.prems have "d' = d"
        by (simp add: rss_step del: rss_monitor_loop.simps)
      then show ?thesis by simp
    next
      case False
      define d1 where
        "d1 = (if supabaseEnabled e
               then upsertContentItemSB ?row (d\<lparr>contentItems := contentItems d @ [?row]\<rparr>)
               else d\<lparr>contentItems := contentItems d @ [?row]\<rparr>)"
      from True False Cons.prems
      have rec: "rss_monitor_loop e sid items (Suc k) (Suc n) d1 = (res, d')"
        unfolding d1_def by (simp add: rss_step del: rss_monitor_loop.simps)
      have d1: "contentItems d1 = contentItems d @ [?row]"
        "contentSources d1 = contentSources d" "summaries d1 = summaries d"
        by (simp_all add: d1_def upsertContentItemSB_def)
      from Cons.IH [OF rec] obtain new where
        n: "contentItems d' = contentItems d1 @ new"
           "\<forall>r \<in> set new. ci_sourceId r = sid \<and> (\<exists>l \<in> feed_links items. ci_url r = Some l)"
           "contentSources d' = contentSources d1" "summaries d' = summaries d1"
        by blast
      have row: "ci_sourceId ?row = sid \<and> (\<exists>l \<in> feed_links (it # items). ci_url ?row = Some l)"
        using True by (simp add: rss_new_item_key feed_links_Cons)
      from n sub have
        "\<forall>r \<in> set new. ci_sourceId r = sid \<and> (\<exists>l \<in> feed_links (it # items). ci_url r = Some l)"
        by blast
      with row have
        "\<forall>r \<in> set (?row # new).
           ci_sourceId r = sid \<and> (\<exists>l \<in> feed_links (it # items). ci_url r = Some l)"
        by simp
      moreover from n d1 have "contentItems d' = contentItems d @ (?row # new)" by simp
      moreover from n d1 have "contentSources d' = contentSources d" "summaries d' = summaries d"
        by simp_all
      ultimately show ?thesis by blast
    qed
  qed
qed

lemma rss_loop_nothing_new:
  assumes "\<forall>it \<in> set items. truthy (fi_link it) \<longrightarrow> stored d sid (or_else (fi_link it) []) \<noteq> 0"
  shows "rss_monitor_loop e sid items k n d = (Inr n, d)"
  using assms
proof (induction items arbitrary: k)
  case Nil
  show ?case by simp
next
  case (Cons it items)
  then have skip: "\<not> (stored d sid (or_else (fi_link it) []) = 0 \<and> truthy (fi_link it))"
    by auto
  from Cons have "rss_monitor_loop e sid items (Suc k) n d = (Inr n, d)" by simp
  with skip show ?case by (simp only: rss_step if_False)
qed



lemma touch_source_items:
  "contentItems (touch_source e sid snap k d) = contentItems d"
  "stored (touch_source e sid snap k d) s l = stored d s l"
  by (simp_all add: touch_source_def stored_def)


lemma rss_handleMonitoring_SuccessD:
  assumes "rss_handleMonitoring e request d = (Success data, d1)"
  shows "\<exists>src fd dl.
           truthy (req_sourceId request)
           \<and> List.find (\<lambda>s. cs_id s = or_else (req_sourceId request) [] \<and> cs_type s = ''rss'')
               (contentSources d) = Some src
           \<and> parseURL e (rss_feedUrl src) = Inr fd
           \<and> rss_monitor_loop e (or_else (req_sourceId request) []) (feed_items fd) 0 0 d
               = (Inr (rmd_newItems data), dl)
           \<and> d1 = touch_source e (or_else (req_sourceId request) []) src (length (feed_items fd)) dl
           \<and> rmd_articlesChecked data = length (feed_items fd)"
  using assms
  by (auto simp: rss_handleMonitoring_def Let_def
      split: if_splits option.splits sum.splits prod.splits)


lemma rss_handleMonitoring_rows:
  assumes "rss_handleMonitoring e request d = (resp, d1)"
  shows "\<exists>new. contentItems d1 = contentItems d @ new
           \<and> (\<forall>r \<in> set new. \<exists>l. ci_url r = Some l \<and> l \<noteq> [])"
proof -
  have loop: "\<exists>new. contentItems d' = contentItems d @ new
           \<and> (\<forall>r \<in> set new. \<exists>l. ci_url r = Some l \<and> l \<noteq> [])"
    if "rss_monitor_loop e sid items k n d = (res, d')" for sid items k n res d'
    using rss_loop_rows [OF that] by (metis feed_links_nonempty)
  have same: "\<exists>new. contentItems d = contentItems d @ new
           \<and> (\<forall>r \<in> set new. \<exists>l. ci_url r = Some l \<and> l \<noteq> [])"
    by (rule exI [of _ "[]"]) simp
  show ?thesis
  proof (cases "truthy (req_sourceId request)")
    case False
    with assms same show ?thesis by (simp add: rss_handleMonitoring_def)
  next
    case True
    note t = True
    show ?thesis
    proof (cases "List.find (\<lambda>s. cs_id s = or_else (req_sourceId request) [] \<and> cs_type s = ''rss'')
               (contentSources d)")
      case None
      with assms t same show ?thesis by (simp add: rss_handleMonitoring_def)
    next
      case (Some src)
      show ?thesis
      proof (cases "parseURL e (rss_feedUrl src)")
        case (Inl err)
        with assms t Some same show ?thesis by (simp add: rss_handleMonitoring_def Let_def)
      next
        case (Inr fd)
        obtain res dl where
          l: "rss_monitor_loop e (or_else (req_sourceId request) []) (feed_items fd) 0 0 d = (res, dl)"
          by (cases "rss_monitor_loop e (or_else (req_sourceId request) []) (feed_items fd) 0 0 d")
        from assms t Some Inr l have "contentItems d1 = contentItems dl"
          by (cases res) (auto simp: rss_handleMonitoring_def Let_def touch_source_items)
        with loop [OF l] show ?thesis by simp
      qed
    qed
  qed
qed










text \<open>
  Claim C10.  Whatever a run of the feed agent's monitor answers, the content items it
  has added all carry a non-empty locator, so no item without a link is ever ingested;
  a feed whose items all lack a link (missing or empty) leaves the store and the counter
  as they were.  When the run succeeds, \<open>articlesChecked\<close> is the number of all items of
  the feed, the skipped ones included, while \<open>newItems\<close> counts distinct non-empty
  links only.
\<close>

theorem linkless_items_skipped_but_counted:
  "(rss_handleMonitoring e request d = (resp, d') \<longrightarrow>
      (\<exists>new. contentItems d' = contentItems d @ new
          \<and> list_all (\<lambda>r. \<exists>l. ci_url r = Some l \<and> l \<noteq> []) new)
      \<and> (\<forall>data. resp = Success data \<longrightarrow>
            (\<exists>src fd.
                List.find (\<lambda>s. cs_id s = or_else (req_sourceId request) [] \<and> cs_type s = ''rss'')
                  (contentSources d) = Some src
                \<and> parseURL e (rss_feedUrl src) = Inr fd
                \<and> rmd_articlesChecked data = length (feed_items fd)
                \<and> rmd_newItems data
                    = card {l \<in> feed_links (feed_items fd).
                              stored d (or_else (req_sourceId request) []) l = 0}))) \<and>
   (list_all (\<lambda>it. fi_link it = None \<or> fi_link it = Some []) items \<longrightarrow>
      rss_monitor_loop ev sourceId items k n dv = (Inr n, dv))"
proof (intro conjI impI)
  assume a: "rss_handleMonitoring e request d = (resp, d')"
  from rss_handleMonitoring_rows [OF a]
  show "\<exists>new. contentItems d' = contentItems d @ new
          \<and> list_all (\<lambda>r. \<exists>l. ci_url r = Some l \<and> l \<noteq> []) new"
    by (simp add: list_all_iff)
  show "\<forall>data. resp = Success data \<longrightarrow>
            (\<exists>src fd.
                List.find (\<lambda>s. cs_id s = or_else (req_sourceId request) [] \<and> cs_type s = ''rss'')
                  (contentSources d) = Some src
                \<and> parseURL e (rss_feedUrl src) = Inr fd
                \<and> rmd_articlesChecked data = length (feed_items fd)
                \<and> rmd_newItems data
                    = card {l \<in> feed_links (feed_items fd).
                              stored d (or_else (req_sourceId request) []) l = 0})"
  proof (intro allI impI)
    fix data assume "resp = Success data"
    with a have run: "rss_handleMonitoring e request d = (Success data, d')" by simp
    let ?sid = "or_else (req_sourceId request) []"
    from rss_handleMonitoring_SuccessD [OF run] obtain src fd dl where
      f: "List.find (\<lambda>s. cs_id s = ?sid \<and> cs_type s = ''rss'') (contentSources d) = Some src" and
      p: "parseURL e (rss_feedUrl src) = Inr fd" and
      l: "rss_monitor_loop e ?sid (feed_items fd) 0 0 d = (Inr (rmd_newItems data), dl)" and
      c: "rmd_articlesChecked data = length (feed_items fd)"
      by blast
    from rss_loop_success [OF l] have
      "rmd_newItems data = card {l \<in> feed_links (feed_items fd). stored d ?sid l = 0}"
      by simp
    with f p c show "\<exists>src fd.
                List.find (\<lambda>s. cs_id s = ?sid \<and> cs_type s = ''rss'') (contentSources d) = Some src
                \<and> parseURL e (rss_feedUrl src) = Inr fd
                \<and> rmd_articlesChecked data = length (feed_items fd)
                \<and> rmd_newItems data
                    = card {l \<in> feed_links (feed_items fd). stored d ?sid l = 0}"
      by blast
  qed
next
  assume "list_all (\<lambda>it. fi_link it = None \<or> fi_link it = Some []) items"
  then have "\<forall>it \<in> set items.
               truthy (fi_link it) \<longrightarrow> stored dv sourceId (or_else (fi_link it) []) \<noteq> 0"
    by (auto simp: list_all_iff truthy_def)
  then show "rss_monitor_loop ev sourceId items k n dv = (Inr n, dv)"
    by (rule rss_loop_nothing_new)
qed

theorem linkless_items_skipped_but_counted_witness:
  "\<exists>data d'.
     rss_handleMonitoring (example_env 1) example_request example_db1 = (Success data, d')
     \<and> length (filter (\<lambda>it. fi_link it = None \<or> fi_link it = Some []) (feed_items example_feed)) = 2
     \<and> rmd_articlesChecked data = 5 \<and> rmd_newItems data = 2
     \<and> length (contentItems d') = 3
     \<and> list_all (\<lambda>r. \<exists>l. ci_url r = Some l \<and> l \<noteq> []) (drop 1 (contentItems d'))"
proof -
  let ?run = "rss_handleMonitoring (example_env 1) example_request example_db1"
  have "is_success (fst ?run)" by code_simp
  then obtain data where fs: "fst ?run = Success data"
    by (cases "fst ?run") (simp_all add: is_success_def)
  then have run: "?run = (Success data, snd ?run)"
    by (simp add: prod_eq_iff)
  have "(case fst ?run of
           Success x \<Rightarrow> rmd_articlesChecked x = 5 \<and> rmd_newItems x = 2
         | Failure m \<Rightarrow> False)"
    by code_simp
  then have n: "rmd_articlesChecked data = 5 \<and> rmd_newItems data = 2"
    unfolding fs by simp
  have len: "length (contentItems (snd ?run)) = 3" by code_simp
  have two: "length (filter (\<lambda>it. fi_link it = None \<or> fi_link it = Some [])
                       (feed_items example_feed)) = 2"
    by (simp add: example_feed_def example_feed_item_def)
  have one: "length (contentItems example_db1) = 1"
    by (simp add: example_db1_def example_db_def)
  from linkless_items_skipped_but_counted
         [where e = "example_env 1" and request = example_request and d = example_db1
            and resp = "Success data" and d' = "snd ?run",
          THEN conjunct1, THEN mp, OF run, THEN conjunct1]
  obtain new where
    "contentItems (snd ?run) = contentItems example_db1 @ new"
    "list_all (\<lambda>r. \<exists>l. ci_url r = Some l \<and> l \<noteq> []) new"
    by blast
  with one have "list_all (\<lambda>r. \<exists>l. ci_url r = Some l \<and> l \<noteq> []) (drop 1 (contentItems (snd ?run)))"
    by simp
  with run n len two show ?thesis by blast
qed

end
